theory Spec2Isabelle
  imports Complex_Main
begin

section \<open>AutoMoLi: the data of \<^verbatim>\<open>apps/automoli/automoli.py\<close>\<close>

text \<open>
  Exceptions a handler can leave by. An exception that reaches the host aborts the
  running callback; what the callback changed before stays changed.
\<close>

datatype error = ValueError | TypeError | KeyError | ZeroDivisionError

text \<open>
  The value of an entity attribute as \<^verbatim>\<open>get_state(entity, attribute)\<close> returns it:
  \<^verbatim>\<open>None\<close> when the attribute is absent, otherwise a string, a number or a boolean.
\<close>

datatype pyval = PNone | PStr string | PInt int | PBool bool

fun truthy :: "pyval \<Rightarrow> bool" where
  "truthy PNone = False"
| "truthy (PStr s) = (s \<noteq> [])"
| "truthy (PInt i) = (i \<noteq> 0)"
| "truthy (PBool b) = b"

text \<open>
  A Python float: what \<^verbatim>\<open>float(s)\<close> returns when it does not raise. Every finite
  double is a rational number.
\<close>

datatype pyfloat = Finite rat | PosInf | NegInf | NaN

fun float_ge :: "pyfloat \<Rightarrow> rat \<Rightarrow> bool" where
  "float_ge (Finite x) t = (x \<ge> t)"
| "float_ge PosInf t = True"
| "float_ge NegInf t = False"
| "float_ge NaN t = False"

text \<open>\<^verbatim>\<open>self.active["light_setting"]\<close>: an int, a str, or anything else.\<close>

datatype setting = SInt int | SStr string | SOther

text \<open>
  \<^verbatim>\<open>self.active\<close>: the dict \<^verbatim>\<open>build_daytimes\<close> builds for a daytime. The state holds
  \<^verbatim>\<open>None\<close> for the empty dict \<^verbatim>\<open>initialize\<close> starts with; reading a key of it raises
  \<^verbatim>\<open>KeyError\<close>.
\<close>

record daytime =
  daytime_name :: string
  delay :: int
  light_setting :: setting
  is_hue_group :: bool

text \<open>What \<^verbatim>\<open>initialize\<close> reads from the app's arguments and never changes afterwards.\<close>

record config =
  lights :: "string list"
  sensors_motion :: "string list"
  sensors_humidity :: "string list"
  sensors_illuminance :: "string list"
  states_motion_on :: "string option"
  states_motion_off :: "string option"
  thresholds_humidity :: "rat option"
  thresholds_illuminance :: "rat option"
  disable_switch_entity :: "string list"
  fade_on :: rat
  fade_off :: rat

text \<open>
  The world outside the app at the moment a callback runs: entity states
  (\<^verbatim>\<open>get_state(entity)\<close>, \<^verbatim>\<open>None\<close> for an unknown entity), attributes, friendly names,
  and Python's \<^verbatim>\<open>float\<close> on a string (\<^verbatim>\<open>None\<close> where it raises \<^verbatim>\<open>ValueError\<close>).
\<close>

record env =
  get_state :: "string \<Rightarrow> string option"
  get_attr :: "string \<Rightarrow> string \<Rightarrow> pyval"
  friendly_name :: "string \<Rightarrow> string"
  py_float :: "string \<Rightarrow> pyfloat option"

text \<open>What the app sends out: service calls, and fade coroutines handed to \<^verbatim>\<open>create_task\<close>.\<close>

datatype command =
    TurnOn string
  | TurnOnBrightness string int
  | HueActivateScene string string
  | FadeTask string string int rat

text \<open>
  The mutable part: \<^verbatim>\<open>self.active\<close>, \<^verbatim>\<open>self._handle\<close>, the host scheduler's pending
  \<^verbatim>\<open>run_in\<close> callbacks of this app (handle and delay), the next handle the scheduler will
  hand out, and the commands issued so far.
\<close>

record state =
  active :: "daytime option"
  handle :: "nat option"
  timers :: "(nat \<times> int) list"
  next_handle :: nat
  issued :: "command list"

section \<open>Python built-ins\<close>



text \<open>\<^verbatim>\<open>s.split(c)\<close> for a one-character separator.\<close>

fun py_split :: "char \<Rightarrow> string \<Rightarrow> string list" where
  "py_split c [] = [[]]"
| "py_split c (x # xs) =
     (if x = c then [] # py_split c xs
      else (case py_split c xs of [] \<Rightarrow> [[x]] | w # ws \<Rightarrow> (x # w) # ws))"

text \<open>\<^verbatim>\<open>s.strip()\<close>, for the whitespace of the ASCII range.\<close>

definition is_space :: "char \<Rightarrow> bool" where
  "is_space c = (c \<in> set [CHR '' '', CHR 0x09, CHR 0x0A, CHR 0x0B, CHR 0x0C, CHR 0x0D,
                            CHR 0x1C, CHR 0x1D, CHR 0x1E, CHR 0x1F])"

definition py_strip :: "string \<Rightarrow> string" where
  "py_strip s = dropWhile is_space (rev (dropWhile is_space (rev s)))"

text \<open>\<^verbatim>\<open>s.startswith(p)\<close>.\<close>

definition startswith :: "string \<Rightarrow> string \<Rightarrow> bool" where
  "startswith s p = (take (length p) s = p)"

section \<open>The fade executor\<close>





section \<open>Disable rules\<close>

text \<open>
  \<^verbatim>\<open>a, b = map(str.strip, s.split(','))\<close>: unpacking anything but two parts raises
  \<^verbatim>\<open>ValueError\<close>.
\<close>

definition unpack2 :: "string \<Rightarrow> error + (string \<times> string)" where
  "unpack2 s = (case map py_strip (py_split CHR '','' s) of
                  [a, b] \<Rightarrow> Inr (a, b)
                | _ \<Rightarrow> Inl ValueError)"

text \<open>
  The loop over \<^verbatim>\<open>conf[1:]\<close> of \<^verbatim>\<open>eval_disable_switch_conf\<close>: the value of \<^verbatim>\<open>attCond\<close>
  when it ends. It stops at the first condition that is met and parses no condition
  after it.
\<close>

fun att_loop :: "env \<Rightarrow> string \<Rightarrow> string list \<Rightarrow> error + bool" where
  "att_loop e entity [] = Inr False"
| "att_loop e entity (attConf # rest) =
     (case unpack2 attConf of
        Inl err \<Rightarrow> Inl err
      | Inr (att, attStat) \<Rightarrow>
          (let currAtt = get_attr e entity att
           in if currAtt = PStr attStat \<or> (currAtt = PNone \<and> ''None'' = attStat)
              then Inr True
              else att_loop e entity rest))"

text \<open>
  \<^verbatim>\<open>eval_disable_switch_conf\<close>. \<^verbatim>\<open>split\<close> never returns the empty list, so \<^verbatim>\<open>conf[0]\<close> exists
  and the first case below is never taken.
\<close>

definition eval_disable_switch_conf :: "env \<Rightarrow> string \<Rightarrow> error + bool" where
  "eval_disable_switch_conf e confLine =
     (case py_split CHR '';'' confLine of
        [] \<Rightarrow> Inl ValueError
      | conf0 # conf1 \<Rightarrow>
          (case unpack2 conf0 of
             Inl err \<Rightarrow> Inl err
           | Inr (entity, disableStat) \<Rightarrow>
               if get_state e entity = Some disableStat
               then (if length conf1 = 0 then Inr True else att_loop e entity conf1)
               else Inr False))"

text \<open>
  The loop \<^verbatim>\<open>for lineStr in self.disable_switch_entity\<close> that opens \<^verbatim>\<open>motion_event\<close> and
  \<^verbatim>\<open>lights_off\<close>: \<open>Inr True\<close> when it returns from the handler at a rule that holds.
\<close>

fun disabled :: "env \<Rightarrow> string list \<Rightarrow> error + bool" where
  "disabled e [] = Inr False"
| "disabled e (lineStr # rest) =
     (case eval_disable_switch_conf e lineStr of
        Inl err \<Rightarrow> Inl err
      | Inr True \<Rightarrow> Inr True
      | Inr False \<Rightarrow> disabled e rest)"

section \<open>The inactivity timer\<close>

text \<open>
  The host's \<^verbatim>\<open>cancel_timer\<close>: removes the callback with that handle if it is pending,
  and does nothing for \<^verbatim>\<open>None\<close> or a handle that fired or was cancelled before.
\<close>

definition cancel_timer :: "nat option \<Rightarrow> state \<Rightarrow> state" where
  "cancel_timer h s =
     (case h of None \<Rightarrow> s
      | Some k \<Rightarrow> s\<lparr>timers := filter (\<lambda>(k', d). k' \<noteq> k) (timers s)\<rparr>)"

text \<open>The host's \<^verbatim>\<open>run_in\<close>: a new pending callback under a handle never used before.\<close>

definition run_in :: "int \<Rightarrow> state \<Rightarrow> nat \<times> state" where
  "run_in d s =
     (next_handle s, s\<lparr>timers := timers s @ [(next_handle s, d)], next_handle := Suc (next_handle s)\<rparr>)"

definition refresh_timer :: "state \<Rightarrow> error option \<times> state" where
  "refresh_timer s =
     (let s1 = cancel_timer (handle s) s
      in case active s1 of
           None \<Rightarrow> (Some KeyError, s1)
         | Some a \<Rightarrow>
             if delay a \<noteq> 0
             then (let (h, s2) = run_in (delay a) s1 in (None, s2\<lparr>handle := Some h\<rparr>))
             else (None, s1))"

section \<open>Turning off\<close>

text \<open>
  The list comprehension of \<^verbatim>\<open>lights_off\<close>: the humidity sensors whose reading is at
  least the threshold, in the order of \<^verbatim>\<open>self.sensors["humidity"]\<close>. \<^verbatim>\<open>float\<close> raises
  \<^verbatim>\<open>TypeError\<close> on \<^verbatim>\<open>None\<close> and \<^verbatim>\<open>ValueError\<close> on a string that is no number; nothing
  catches either.
\<close>

fun humidity_blockers :: "env \<Rightarrow> rat \<Rightarrow> string list \<Rightarrow> error + string list" where
  "humidity_blockers e thr [] = Inr []"
| "humidity_blockers e thr (sensor # rest) =
     (case get_state e sensor of
        None \<Rightarrow> Inl TypeError
      | Some v \<Rightarrow>
          (case py_float e v of
             None \<Rightarrow> Inl ValueError
           | Some x \<Rightarrow>
               (case humidity_blockers e thr rest of
                  Inl err \<Rightarrow> Inl err
                | Inr bs \<Rightarrow> Inr (if float_ge x thr then sensor # bs else bs))))"

text \<open>
  The value of \<^verbatim>\<open>blocker\<close> before \<^verbatim>\<open>if blocker:\<close>. A threshold that is \<^verbatim>\<open>None\<close> or zero is
  falsy and leaves it \<^verbatim>\<open>None\<close>; \<^verbatim>\<open>blocker.pop()\<close> takes the last element of the list.
\<close>

definition off_blocker :: "config \<Rightarrow> env \<Rightarrow> error + string option" where
  "off_blocker c e =
     (case thresholds_humidity c of
        None \<Rightarrow> Inr None
      | Some thr \<Rightarrow>
          if thr = 0 then Inr None
          else (case humidity_blockers e thr (sensors_humidity c) of
                  Inl err \<Rightarrow> Inl err
                | Inr blocker \<Rightarrow> Inr (if blocker \<noteq> [] then Some (last blocker) else None)))"

definition any_light_on :: "config \<Rightarrow> env \<Rightarrow> bool" where
  "any_light_on c e = (\<exists>entity \<in> set (lights c). get_state e entity = Some ''on'')"

definition issue :: "command list \<Rightarrow> state \<Rightarrow> state" where
  "issue cmds s = s\<lparr>issued := issued s @ cmds\<rparr>"

definition lights_off :: "config \<Rightarrow> env \<Rightarrow> state \<Rightarrow> error option \<times> state" where
  "lights_off c e s =
     (case disabled e (disable_switch_entity c) of
        Inl err \<Rightarrow> (Some err, s)
      | Inr True \<Rightarrow> (None, s)
      | Inr False \<Rightarrow>
          (case off_blocker c e of
             Inl err \<Rightarrow> (Some err, s)
           | Inr blocker \<Rightarrow>
               if blocker \<noteq> None \<and> blocker \<noteq> Some []
               then refresh_timer s
               else (let s1 = cancel_timer (handle s) s
                     in if any_light_on c e
                        then (let s2 = issue (map (\<lambda>entity. FadeTask entity ''down'' 0 (fade_off c)) (lights c)) s1
                              in (if active s2 = None then Some KeyError else None, s2))
                        else (None, s1))))"

section \<open>Turning on\<close>

text \<open>
  The loop over \<^verbatim>\<open>self.sensors["illuminance"]\<close> of \<^verbatim>\<open>lights_on\<close>, with the list
  \<^verbatim>\<open>blocker\<close> built so far: \<open>Inr None\<close> when the handler of \<^verbatim>\<open>ValueError\<close> returns from
  \<^verbatim>\<open>lights_on\<close>, \<open>Inr (Some blocker)\<close> when the loop ends. \<^verbatim>\<open>TypeError\<close> (the state of an
  unknown entity is \<^verbatim>\<open>None\<close>) is not caught.
\<close>

fun illuminance_loop :: "env \<Rightarrow> rat \<Rightarrow> string list \<Rightarrow> string list \<Rightarrow> error + string list option" where
  "illuminance_loop e thr [] blocker = Inr (Some blocker)"
| "illuminance_loop e thr (sensor # rest) blocker =
     (case get_state e sensor of
        None \<Rightarrow> Inl TypeError
      | Some v \<Rightarrow>
          (case py_float e v of
             None \<Rightarrow> Inr None
           | Some x \<Rightarrow>
               illuminance_loop e thr rest (if float_ge x thr then blocker @ [sensor] else blocker)))"

definition on_blocker :: "config \<Rightarrow> env \<Rightarrow> error + string list option" where
  "on_blocker c e =
     (case thresholds_illuminance c of
        None \<Rightarrow> Inr (Some [])
      | Some thr \<Rightarrow>
          if thr = 0 then Inr (Some [])
          else illuminance_loop e thr (sensors_illuminance c) [])"

definition scene_command :: "env \<Rightarrow> daytime \<Rightarrow> string \<Rightarrow> string \<Rightarrow> command" where
  "scene_command e a scene entity =
     (if is_hue_group a \<and> truthy (get_attr e entity ''is_hue_group'')
      then HueActivateScene (friendly_name e entity) scene
      else TurnOn (if startswith scene ''scene.'' then scene else entity))"

definition brightness_command :: "config \<Rightarrow> int \<Rightarrow> string \<Rightarrow> command" where
  "brightness_command c pct entity =
     (if startswith entity ''switch.'' then TurnOn entity
      else FadeTask entity ''up'' pct (fade_on c))"

definition lights_on :: "config \<Rightarrow> env \<Rightarrow> state \<Rightarrow> error option \<times> state" where
  "lights_on c e s =
     (case on_blocker c e of
        Inl err \<Rightarrow> (Some err, s)
      | Inr None \<Rightarrow> (None, s)
      | Inr (Some blocker) \<Rightarrow>
          if blocker \<noteq> [] then (None, s)
          else (case active s of
                  None \<Rightarrow> (Some KeyError, s)
                | Some a \<Rightarrow>
                    (case light_setting a of
                       SStr scene \<Rightarrow> (None, issue (map (scene_command e a scene) (lights c)) s)
                     | SInt pct \<Rightarrow>
                         if pct = 0 then lights_off c e s
                         else (None, issue (map (brightness_command c pct) (lights c)) s)
                     | SOther \<Rightarrow> (Some ValueError, s))))"

section \<open>The motion handlers\<close>

definition EVENT_MOTION_XIAOMI :: string where
  "EVENT_MOTION_XIAOMI = ''xiaomi_aqara.motion''"

definition motion_event :: "config \<Rightarrow> env \<Rightarrow> string \<Rightarrow> state \<Rightarrow> error option \<times> state" where
  "motion_event c e event s =
     (case disabled e (disable_switch_entity c) of
        Inl err \<Rightarrow> (Some err, s)
      | Inr True \<Rightarrow> (None, s)
      | Inr False \<Rightarrow>
          (case (if \<not> any_light_on c e then lights_on c e s else (None, s)) of
             (Some err, s1) \<Rightarrow> (Some err, s1)
           | (None, s1) \<Rightarrow>
               if event \<noteq> ''state_changed_detection'' then refresh_timer s1 else (None, s1)))"

definition motion_detected :: "config \<Rightarrow> env \<Rightarrow> state \<Rightarrow> error option \<times> state" where
  "motion_detected c e s =
     motion_event c e ''state_changed_detection''
       (if handle s \<noteq> None then cancel_timer (handle s) s else s)"

definition motion_cleared :: "config \<Rightarrow> env \<Rightarrow> state \<Rightarrow> error option \<times> state" where
  "motion_cleared c e s =
     (if \<forall>sensor \<in> set (sensors_motion c). get_state e sensor = states_motion_off c
      then refresh_timer s
      else if handle s \<noteq> None then (None, cancel_timer (handle s) s)
      else (None, s))"

definition switch_daytime :: "daytime \<Rightarrow> state \<Rightarrow> state" where
  "switch_daytime d s = s\<lparr>active := Some d\<rparr>"

text \<open>
  A pending callback fires: the scheduler drops it and calls \<^verbatim>\<open>lights_off\<close>. A handle that
  is not pending cannot fire.
\<close>

definition timer_fired :: "config \<Rightarrow> env \<Rightarrow> nat \<Rightarrow> state \<Rightarrow> error option \<times> state" where
  "timer_fired c e h s =
     (if h \<in> fst ` set (timers s)
      then lights_off c e (s\<lparr>timers := filter (\<lambda>(k, d). k \<noteq> h) (timers s)\<rparr>)
      else (None, s))"

text \<open>
  What the host can deliver to a running zone: the discrete motion event, the state
  changes of a continuous sensor, a timer that fires, and the daily switch of the active
  daytime. The host logs an exception a callback raises and goes on with the next event.
\<close>

datatype event = MotionPulse | MotionDetected | MotionCleared | TimerFired nat | SwitchDaytime daytime

fun deliver :: "config \<Rightarrow> env \<Rightarrow> event \<Rightarrow> state \<Rightarrow> error option \<times> state" where
  "deliver c e MotionPulse s = motion_event c e EVENT_MOTION_XIAOMI s"
| "deliver c e MotionDetected s = motion_detected c e s"
| "deliver c e MotionCleared s = motion_cleared c e s"
| "deliver c e (TimerFired h) s = timer_fired c e h s"
| "deliver c e (SwitchDaytime d) s = (None, switch_daytime d s)"

fun run :: "config \<Rightarrow> (env \<times> event) list \<Rightarrow> state \<Rightarrow> state" where
  "run c [] s = s"
| "run c ((e, ev) # rest) s = run c rest (snd (deliver c e ev s))"

text \<open>
  The timer discipline: the scheduler holds no callback of the zone, or exactly the one
  whose handle is in \<^verbatim>\<open>self._handle\<close>.
\<close>

definition timer_inv :: "state \<Rightarrow> bool" where
  "timer_inv s = (case timers s of
                    [] \<Rightarrow> True
                  | [(h, d)] \<Rightarrow> handle s = Some h
                  | _ \<Rightarrow> False)"

section \<open>The vocabulary of the properties\<close>

text \<open>A sensor is readable when its state is a string that \<^verbatim>\<open>float\<close> accepts.\<close>

definition readable :: "env \<Rightarrow> string \<Rightarrow> bool" where
  "readable e sensor =
     (case get_state e sensor of
        None \<Rightarrow> False
      | Some v \<Rightarrow> (case py_float e v of None \<Rightarrow> False | Some x \<Rightarrow> True))"

text \<open>The reading of a sensor is a number at or above the threshold.\<close>

definition reading_ge :: "env \<Rightarrow> rat \<Rightarrow> string \<Rightarrow> bool" where
  "reading_ge e thr sensor =
     (case get_state e sensor of
        None \<Rightarrow> False
      | Some v \<Rightarrow> (case py_float e v of None \<Rightarrow> False | Some x \<Rightarrow> float_ge x thr))"

text \<open>An event that leaves the active daytime alone.\<close>

fun keeps_profile :: "event \<Rightarrow> bool" where
  "keeps_profile (SwitchDaytime d) = False"
| "keeps_profile ev = True"

text \<open>
  A handler was quiet from \<open>s\<close> to \<open>s'\<close>: it never called \<^verbatim>\<open>run_in\<close> (the scheduler
  handed out no handle), so the pending callbacks can only have become fewer, and it kept
  the active daytime.
\<close>

definition quiet :: "state \<Rightarrow> state \<Rightarrow> bool" where
  "quiet s s' = (active s' = active s \<and> next_handle s' = next_handle s
                 \<and> set (timers s') \<subseteq> set (timers s))"






section \<open>A zone to run the handlers on\<close>

definition day :: daytime where
  "day = \<lparr>daytime_name = ''day'', delay = 150, light_setting = SInt 100, is_hue_group = False\<rparr>"

definition always_on :: daytime where
  "always_on = \<lparr>daytime_name = ''party'', delay = 0, light_setting = SInt 100, is_hue_group = False\<rparr>"

definition bathroom :: config where
  "bathroom =
     \<lparr>lights = [''light.bath''],
      sensors_motion = [''binary_sensor.motion_bath''],
      sensors_humidity = [''sensor.humidity_a'', ''sensor.humidity_b''],
      sensors_illuminance = [''sensor.illumination_bath''],
      states_motion_on = Some ''on'',
      states_motion_off = Some ''off'',
      thresholds_humidity = Some 60,
      thresholds_illuminance = Some 100,
      disable_switch_entity = [''switch.guard, on'', ''climate.bath, heat; preset_mode, None''],
      fade_on = 3,
      fade_off = 3\<rparr>"

text \<open>What \<^verbatim>\<open>float\<close> gives on the readings used below; it raises on every other string.\<close>

definition sample_float :: "string \<Rightarrow> pyfloat option" where
  "sample_float = map_of [(''5'', Finite 5), (''40'', Finite 40), (''65'', Finite 65),
                          (''70'', Finite 70), (''250'', Finite 250)]"

text \<open>A world given by the states of its entities; no entity has an attribute.\<close>

definition world :: "(string \<times> string) list \<Rightarrow> env" where
  "world sts = \<lparr>get_state = map_of sts, get_attr = (\<lambda>entity att. PNone),
                friendly_name = (\<lambda>entity. entity), py_float = sample_float\<rparr>"

text \<open>The light is on, the air is dry and the room is dark.\<close>

definition lit :: env where
  "lit = world [(''light.bath'', ''on''), (''binary_sensor.motion_bath'', ''on''),
                (''sensor.humidity_a'', ''40''), (''sensor.humidity_b'', ''40''),
                (''sensor.illumination_bath'', ''5''), (''switch.guard'', ''off'')]"

text \<open>The light is off, the air is dry and the room is dark.\<close>

definition dark :: env where
  "dark = world [(''light.bath'', ''off''), (''binary_sensor.motion_bath'', ''on''),
                 (''sensor.humidity_a'', ''40''), (''sensor.humidity_b'', ''40''),
                 (''sensor.illumination_bath'', ''5''), (''switch.guard'', ''off'')]"

text \<open>The light is off and the room is bright.\<close>

definition bright :: env where
  "bright = world [(''light.bath'', ''off''), (''binary_sensor.motion_bath'', ''on''),
                   (''sensor.humidity_a'', ''40''), (''sensor.humidity_b'', ''40''),
                   (''sensor.illumination_bath'', ''250''), (''switch.guard'', ''off'')]"

text \<open>The light is on and both humidity sensors read above the threshold.\<close>

definition steamy :: env where
  "steamy = world [(''light.bath'', ''on''), (''binary_sensor.motion_bath'', ''off''),
                   (''sensor.humidity_a'', ''70''), (''sensor.humidity_b'', ''65''),
                   (''sensor.illumination_bath'', ''5''), (''switch.guard'', ''off'')]"

text \<open>The light is on and the first humidity sensor has no reading.\<close>

definition offline :: env where
  "offline = world [(''light.bath'', ''on''), (''binary_sensor.motion_bath'', ''off''),
                    (''sensor.humidity_a'', ''unavailable''), (''sensor.humidity_b'', ''40''),
                    (''sensor.illumination_bath'', ''5''), (''switch.guard'', ''off'')]"

text \<open>The light is off and the guard switch is on.\<close>

definition guarded :: env where
  "guarded = world [(''light.bath'', ''off''), (''binary_sensor.motion_bath'', ''on''),
                    (''sensor.humidity_a'', ''40''), (''sensor.humidity_b'', ''40''),
                    (''sensor.illumination_bath'', ''5''), (''switch.guard'', ''on'')]"


text \<open>The zone with no timer pending, and with the timer of handle 0 pending.\<close>

definition idle :: "daytime \<Rightarrow> state" where
  "idle a = \<lparr>active = Some a, handle = None, timers = [], next_handle = 0, issued = []\<rparr>"

definition timed :: "daytime \<Rightarrow> state" where
  "timed a = \<lparr>active = Some a, handle = Some 0, timers = [(0, 150)], next_handle = 1, issued = []\<rparr>"

section \<open>Lemmas about the model\<close>

subsection \<open>The timer discipline\<close>

lemma timers_cancel_timer:
  "timer_inv s \<Longrightarrow> timers (cancel_timer (handle s) s) = []"
  by (auto simp: timer_inv_def cancel_timer_def split: list.splits option.splits prod.splits)

lemma cancel_timer_fields [simp]:
  "handle (cancel_timer h s) = handle s"
  "active (cancel_timer h s) = active s"
  "next_handle (cancel_timer h s) = next_handle s"
  "issued (cancel_timer h s) = issued s"
  by (simp_all add: cancel_timer_def split: option.splits)

lemma timer_inv_Nil: "timers s = [] \<Longrightarrow> timer_inv s"
  by (simp add: timer_inv_def)

lemma timer_inv_cancel: "timer_inv s \<Longrightarrow> timer_inv (cancel_timer (handle s) s)"
  by (simp add: timer_inv_Nil timers_cancel_timer)

lemma timer_inv_refresh_timer: "timer_inv s \<Longrightarrow> timer_inv (snd (refresh_timer s))"
  by (auto simp: refresh_timer_def Let_def run_in_def timers_cancel_timer timer_inv_Nil
      split: option.splits) (simp add: timer_inv_def timers_cancel_timer)

lemma issue_fields [simp]:
  "handle (issue cmds s) = handle s"
  "active (issue cmds s) = active s"
  "next_handle (issue cmds s) = next_handle s"
  "timers (issue cmds s) = timers s"
  "issued (issue cmds s) = issued s @ cmds"
  by (simp_all add: issue_def)

lemma timer_inv_issue [simp]: "timer_inv (issue cmds s) = timer_inv s"
  by (simp add: timer_inv_def issue_def split: list.splits prod.splits)

lemma timer_inv_lights_off: "timer_inv s \<Longrightarrow> timer_inv (snd (lights_off c e s))"
  by (auto simp: lights_off_def Let_def timer_inv_refresh_timer timer_inv_cancel
      split: sum.splits bool.splits)

lemma timer_inv_lights_on: "timer_inv s \<Longrightarrow> timer_inv (snd (lights_on c e s))"
  by (auto simp: lights_on_def timer_inv_lights_off
      split: sum.splits option.splits setting.splits)

lemma timer_inv_motion_event:
  assumes "timer_inv s"
  shows "timer_inv (snd (motion_event c e ev s))"
proof -
  obtain r s1 where on: "lights_on c e s = (r, s1)"
    by (cases "lights_on c e s")
  have s1: "timer_inv s1"
    using timer_inv_lights_on [OF assms, of c e] on by simp
  show ?thesis
    using assms s1 on
    by (auto simp: motion_event_def timer_inv_refresh_timer
        split: sum.splits bool.splits option.splits)
qed

lemma timer_inv_motion_detected: "timer_inv s \<Longrightarrow> timer_inv (snd (motion_detected c e s))"
  by (simp add: motion_detected_def timer_inv_motion_event timer_inv_cancel)

lemma timer_inv_motion_cleared: "timer_inv s \<Longrightarrow> timer_inv (snd (motion_cleared c e s))"
  by (simp add: motion_cleared_def timer_inv_refresh_timer timer_inv_cancel)

lemma timer_inv_timer_fired: "timer_inv s \<Longrightarrow> timer_inv (snd (timer_fired c e h s))"
proof -
  assume inv: "timer_inv s"
  have "h \<in> fst ` set (timers s) \<Longrightarrow> timers (s\<lparr>timers := filter (\<lambda>(k, d). k \<noteq> h) (timers s)\<rparr>) = []"
    using inv by (auto simp: timer_inv_def split: list.splits prod.splits)
  then show ?thesis
    using inv by (simp add: timer_fired_def timer_inv_lights_off timer_inv_Nil)
qed

lemma timer_inv_switch_daytime: "timer_inv (switch_daytime d s) = timer_inv s"
  by (simp add: timer_inv_def switch_daytime_def split: list.splits prod.splits)

lemma timer_inv_deliver: "timer_inv s \<Longrightarrow> timer_inv (snd (deliver c e ev s))"
  by (cases ev)
     (simp_all add: timer_inv_motion_event timer_inv_motion_detected timer_inv_motion_cleared
        timer_inv_timer_fired timer_inv_switch_daytime)

lemma timer_inv_run: "timer_inv s \<Longrightarrow> timer_inv (run c evs s)"
  by (induction evs arbitrary: s) (auto simp: timer_inv_deliver)

lemma timer_inv_length: "timer_inv s \<Longrightarrow> length (timers s) \<le> 1"
  by (auto simp: timer_inv_def split: list.splits)

subsection \<open>Handlers that schedule nothing\<close>

lemma quiet_refl: "quiet s s"
  by (simp add: quiet_def)

lemma quiet_trans: "quiet s s1 \<Longrightarrow> quiet s1 s2 \<Longrightarrow> quiet s s2"
  by (auto simp: quiet_def)

lemma quiet_cancel_timer: "quiet s (cancel_timer h s)"
  by (auto simp: quiet_def cancel_timer_def split: option.splits)

lemma quiet_issue: "quiet s (issue cmds s)"
  by (simp add: quiet_def)

lemma quiet_refresh_timer:
  "active s = Some a \<Longrightarrow> delay a = 0 \<Longrightarrow> quiet s (snd (refresh_timer s))"
  by (simp add: refresh_timer_def Let_def quiet_cancel_timer)

lemma quiet_lights_off:
  "active s = Some a \<Longrightarrow> delay a = 0 \<Longrightarrow> quiet s (snd (lights_off c e s))"
  by (auto simp: lights_off_def Let_def quiet_refl quiet_refresh_timer quiet_cancel_timer
      intro: quiet_trans [OF quiet_cancel_timer quiet_issue]
      split: sum.splits bool.splits)

lemma quiet_lights_on:
  "active s = Some a \<Longrightarrow> delay a = 0 \<Longrightarrow> quiet s (snd (lights_on c e s))"
  by (auto simp: lights_on_def quiet_refl quiet_issue quiet_lights_off
      split: sum.splits option.splits setting.splits)

lemma quiet_motion_event:
  assumes "active s = Some a" "delay a = 0"
  shows "quiet s (snd (motion_event c e ev s))"
proof -
  obtain r s1 where on: "lights_on c e s = (r, s1)"
    by (cases "lights_on c e s")
  have q1: "quiet s s1"
    using quiet_lights_on [OF assms, of c e] on by simp
  then have "active s1 = Some a"
    using assms by (simp add: quiet_def)
  then have q2: "quiet s1 (snd (refresh_timer s1))"
    using assms by (simp add: quiet_refresh_timer)
  have q3: "quiet s (snd (refresh_timer s))"
    using assms by (simp add: quiet_refresh_timer)
  show ?thesis
    using on q1 q3 quiet_trans [OF q1 q2]
    by (auto simp: motion_event_def quiet_refl split: sum.splits bool.splits option.splits)
qed

lemma quiet_motion_detected:
  assumes "active s = Some a" "delay a = 0"
  shows "quiet s (snd (motion_detected c e s))"
proof -
  have "quiet (cancel_timer (handle s) s) (snd (motion_event c e ''state_changed_detection'' (cancel_timer (handle s) s)))"
    using assms by (simp add: quiet_motion_event)
  then have "quiet s (snd (motion_event c e ''state_changed_detection'' (cancel_timer (handle s) s)))"
    by (rule quiet_trans [OF quiet_cancel_timer])
  then show ?thesis
    using assms by (auto simp: motion_detected_def quiet_motion_event)
qed

lemma quiet_motion_cleared:
  "active s = Some a \<Longrightarrow> delay a = 0 \<Longrightarrow> quiet s (snd (motion_cleared c e s))"
  by (simp add: motion_cleared_def quiet_refresh_timer quiet_cancel_timer quiet_refl)

lemma quiet_drop_timer: "quiet s (s\<lparr>timers := filter P (timers s)\<rparr>)"
  by (simp add: quiet_def)

lemma quiet_timer_fired:
  assumes "active s = Some a" "delay a = 0"
  shows "quiet s (snd (timer_fired c e h s))"
proof (cases "h \<in> fst ` set (timers s)")
  case True
  let ?s1 = "s\<lparr>timers := filter (\<lambda>(k, d). k \<noteq> h) (timers s)\<rparr>"
  have "quiet ?s1 (snd (lights_off c e ?s1))"
    using assms by (simp add: quiet_lights_off)
  then have "quiet s (snd (lights_off c e ?s1))"
    by (rule quiet_trans [OF quiet_drop_timer])
  with True show ?thesis by (simp add: timer_fired_def)
next
  case False
  then show ?thesis by (simp add: timer_fired_def quiet_refl)
qed

lemma quiet_deliver:
  "active s = Some a \<Longrightarrow> delay a = 0 \<Longrightarrow> keeps_profile ev \<Longrightarrow> quiet s (snd (deliver c e ev s))"
  by (cases ev)
     (simp_all add: quiet_motion_event quiet_motion_detected quiet_motion_cleared quiet_timer_fired)

lemma quiet_run:
  "active s = Some a \<Longrightarrow> delay a = 0 \<Longrightarrow> \<forall>(e, ev) \<in> set evs. keeps_profile ev
     \<Longrightarrow> quiet s (run c evs s)"
proof (induction evs arbitrary: s)
  case Nil
  then show ?case by (simp add: quiet_refl)
next
  case (Cons x evs)
  obtain e ev where x: "x = (e, ev)" by (cases x)
  let ?s1 = "snd (deliver c e ev s)"
  have q1: "quiet s ?s1"
    using Cons.prems x by (simp add: quiet_deliver)
  then have "active ?s1 = Some a"
    using Cons.prems by (simp add: quiet_def)
  then have "quiet ?s1 (run c evs ?s1)"
    using Cons.prems by (intro Cons.IH) auto
  with q1 show ?case
    using x by (auto intro: quiet_trans)
qed

subsection \<open>Threshold readings\<close>

lemma humidity_blockers_readable:
  "\<forall>sensor \<in> set xs. readable e sensor
     \<Longrightarrow> humidity_blockers e thr xs = Inr (filter (reading_ge e thr) xs)"
  by (induction xs) (auto simp: readable_def reading_ge_def split: option.splits)

lemma humidity_blockers_unparsable:
  "get_state e sensor = Some v \<Longrightarrow> py_float e v = None
     \<Longrightarrow> \<forall>x \<in> set pre. readable e x
     \<Longrightarrow> humidity_blockers e thr (pre @ sensor # post) = Inl ValueError"
  by (induction pre) (auto simp: readable_def split: option.splits)

lemma off_blocker_readable:
  "thresholds_humidity c = Some thr \<Longrightarrow> thr \<noteq> 0
     \<Longrightarrow> \<forall>sensor \<in> set (sensors_humidity c). readable e sensor
     \<Longrightarrow> off_blocker c e =
           Inr (let bs = filter (reading_ge e thr) (sensors_humidity c)
                in if bs = [] then None else Some (last bs))"
  by (simp add: off_blocker_def humidity_blockers_readable Let_def)




subsection \<open>Disable rules\<close>






lemma off_blocker_illuminance_threshold:
  "off_blocker (c\<lparr>thresholds_illuminance := x\<rparr>) e = off_blocker c e"
  by (auto simp: off_blocker_def split: option.splits sum.splits)

lemma any_light_on_thresholds:
  "any_light_on (c\<lparr>thresholds_illuminance := x\<rparr>) e = any_light_on c e"
  "any_light_on (c\<lparr>thresholds_humidity := y\<rparr>) e = any_light_on c e"
  by (simp_all add: any_light_on_def)

lemma lights_off_illuminance_threshold:
  "lights_off (c\<lparr>thresholds_illuminance := x\<rparr>) e s = lights_off c e s"
  by (auto simp: lights_off_def off_blocker_illuminance_threshold any_light_on_thresholds Let_def
      split: sum.splits bool.splits)

lemma off_blocker_zero:
  "off_blocker (c\<lparr>thresholds_humidity := Some 0\<rparr>) e = Inr None"
  "off_blocker (c\<lparr>thresholds_humidity := None\<rparr>) e = Inr None"
  by (simp_all add: off_blocker_def)

lemma on_blocker_zero:
  "on_blocker (c\<lparr>thresholds_illuminance := Some 0\<rparr>) e = Inr (Some [])"
  "on_blocker (c\<lparr>thresholds_illuminance := None\<rparr>) e = Inr (Some [])"
  by (simp_all add: on_blocker_def)

lemma cancel_timer_None: "(if handle s \<noteq> None then cancel_timer (handle s) s else s) = cancel_timer (handle s) s"
  by (simp add: cancel_timer_def)



section \<open>The properties\<close>

text \<open>
  C1. At most one auto-off timer is pending per zone. From a state that keeps the timer
  discipline (no pending callback, or only the one \<^verbatim>\<open>self._handle\<close> names), every sequence
  of events (motion detected with or without cleared in between, motion pulses, timers
  that fire, daytime switches, in any world) leads to a state that keeps it, so the
  scheduler never holds two callbacks of the zone: \<^verbatim>\<open>run_in\<close> is called by
  \<^verbatim>\<open>refresh_timer\<close> alone, after \<^verbatim>\<open>cancel_timer(self._handle)\<close>.
\<close>

theorem one_pending_timer:
  assumes "timer_inv s"
  shows "timer_inv (run c evs s) \<and> length (timers (run c evs s)) \<le> 1"
proof -
  have "timer_inv (run c evs s)"
    using assms by (rule timer_inv_run)
  with timer_inv_length [of "run c evs s"] show ?thesis
    by blast
qed

theorem one_pending_timer_witness:
  "timer_inv (idle day)
   \<and> length (timers (run bathroom [(dark, MotionDetected), (lit, MotionDetected),
                                     (lit, MotionPulse), (lit, MotionDetected)] (idle day))) \<le> 1"
  using one_pending_timer [of "idle day" bathroom
      "[(dark, MotionDetected), (lit, MotionDetected), (lit, MotionPulse), (lit, MotionDetected)]"]
  by (simp add: timer_inv_def idle_def)

text \<open>
  C2, as the specification states it, fails: with the light on, the day profile (delay
  150) active and no disable rule holding, the handler of a continuous sensor's
  "detected" cancels the pending timer and schedules none, where \<^verbatim>\<open>refresh_timer\<close> would
  leave the timer of handle 1 pending.
\<close>

theorem detected_refresh_counterexample:
  "disabled lit (disable_switch_entity bathroom) = Inr False
   \<and> any_light_on bathroom lit
   \<and> timers (snd (motion_detected bathroom lit (timed day))) = []
   \<and> next_handle (snd (motion_detected bathroom lit (timed day))) = next_handle (timed day)
   \<and> timers (snd (refresh_timer (timed day))) = [(1, 150)]"
  by code_simp

text \<open>
  C2, amended. When no disable rule holds, \<^verbatim>\<open>motion_detected\<close> cancels the pending timer
  and then does what the discrete motion event does, except that it does not refresh the
  timer afterwards (\<^verbatim>\<open>motion_event\<close> skips \<^verbatim>\<open>refresh_timer\<close> for the event
  \<^verbatim>\<open>state_changed_detection\<close>): with a light on nothing more happens, otherwise
  \<^verbatim>\<open>lights_on\<close> runs. The discrete motion event is the path that refreshes the timer:
  at once when a light is on, and after \<^verbatim>\<open>lights_on\<close> unless that raised.
\<close>

theorem detected_cancels_pulse_refreshes:
  assumes "disabled e (disable_switch_entity c) = Inr False"
  shows "motion_detected c e s =
           (if any_light_on c e then (None, cancel_timer (handle s) s)
            else lights_on c e (cancel_timer (handle s) s))
         \<and> motion_event c e EVENT_MOTION_XIAOMI s =
           (if any_light_on c e then refresh_timer s
            else (case lights_on c e s of
                    (Some err, s1) \<Rightarrow> (Some err, s1)
                  | (None, s1) \<Rightarrow> refresh_timer s1))"
proof -
  have detected: "motion_detected c e s =
      motion_event c e ''state_changed_detection'' (cancel_timer (handle s) s)"
    by (simp only: motion_detected_def cancel_timer_None)
  have "motion_event c e ''state_changed_detection'' (cancel_timer (handle s) s) =
      (if any_light_on c e then (None, cancel_timer (handle s) s)
       else lights_on c e (cancel_timer (handle s) s))"
    using assms
    by (cases "lights_on c e (cancel_timer (handle s) s)")
       (auto simp: motion_event_def split: option.splits)
  moreover have "motion_event c e EVENT_MOTION_XIAOMI s =
      (if any_light_on c e then refresh_timer s
       else (case lights_on c e s of
               (Some err, s1) \<Rightarrow> (Some err, s1)
             | (None, s1) \<Rightarrow> refresh_timer s1))"
    using assms
    by (cases "lights_on c e s")
       (auto simp: motion_event_def EVENT_MOTION_XIAOMI_def split: option.splits)
  ultimately show ?thesis
    using detected by simp
qed

theorem detected_cancels_pulse_refreshes_witness:
  "disabled lit (disable_switch_entity bathroom) = Inr False
   \<and> motion_detected bathroom lit (timed day) = (None, cancel_timer (Some 0) (timed day))
   \<and> motion_event bathroom lit EVENT_MOTION_XIAOMI (timed day) = refresh_timer (timed day)"
proof -
  have free: "disabled lit (disable_switch_entity bathroom) = Inr False"
    by code_simp
  have on: "any_light_on bathroom lit"
    by code_simp
  have "handle (timed day) = Some 0"
    by (simp add: timed_def)
  with detected_cancels_pulse_refreshes [OF free, of "timed day"] on free
  show ?thesis by simp
qed




text \<open>
  C4. While the active daytime has delay 0 no timer is scheduled: whatever motion events
  and timer callbacks arrive, as long as no daytime switch replaces the profile, the
  scheduler hands out no new handle and its pending callbacks are among those it had.
\<close>

theorem delay_zero_schedules_nothing:
  assumes "active s = Some a" and "delay a = 0"
    and "\<forall>(e, ev) \<in> set evs. keeps_profile ev"
  shows "next_handle (run c evs s) = next_handle s
         \<and> set (timers (run c evs s)) \<subseteq> set (timers s)
         \<and> active (run c evs s) = Some a"
  using quiet_run [OF assms, of c] assms(1) by (simp add: quiet_def)

theorem delay_zero_schedules_nothing_witness:
  "active (idle always_on) = Some always_on \<and> delay always_on = 0
   \<and> keeps_profile MotionPulse \<and> keeps_profile MotionDetected \<and> keeps_profile MotionCleared
   \<and> next_handle (run bathroom [(dark, MotionPulse), (lit, MotionDetected), (lit, MotionCleared)]
                     (idle always_on)) = 0
   \<and> timers (run bathroom [(dark, MotionPulse), (lit, MotionDetected), (lit, MotionCleared)]
                (idle always_on)) = []"
  using delay_zero_schedules_nothing [of "idle always_on" always_on
      "[(dark, MotionPulse), (lit, MotionDetected), (lit, MotionCleared)]" bathroom]
  by (simp add: idle_def always_on_def)

text \<open>
  C5, as the specification states it, fails: the pending timer fires while the active
  daytime has delay 0 and a humidity sensor reads above the threshold. No light is turned
  off, but the timer is not rescheduled: no callback is pending afterwards and the
  scheduler handed out no handle.
\<close>

theorem humidity_block_reschedule_counterexample:
  "reading_ge steamy 60 ''sensor.humidity_a''
   \<and> delay always_on = 0
   \<and> fst (timer_fired bathroom steamy 0 (timed always_on)) = None
   \<and> issued (snd (timer_fired bathroom steamy 0 (timed always_on))) = []
   \<and> timers (snd (timer_fired bathroom steamy 0 (timed always_on))) = []
   \<and> next_handle (snd (timer_fired bathroom steamy 0 (timed always_on))) = next_handle (timed always_on)"
  by code_simp

text \<open>
  C5, amended. When the off-path runs, no disable rule holds, the humidity threshold is
  configured and not zero, every humidity sensor is readable (and named), and some
  humidity sensor reads at or above the threshold, then no light command is issued and
  the off-path does what \<^verbatim>\<open>refresh_timer\<close> does: it cancels the pending timer, and, when
  the delay of the active daytime is not 0, schedules a new one at that delay and keeps
  its handle; when the delay is 0 it schedules none.
\<close>

theorem humidity_block_refreshes_timer:
  assumes "disabled e (disable_switch_entity c) = Inr False"
    and "thresholds_humidity c = Some thr" and "thr \<noteq> 0"
    and "\<forall>sensor \<in> set (sensors_humidity c). readable e sensor \<and> sensor \<noteq> []"
    and "\<exists>sensor \<in> set (sensors_humidity c). reading_ge e thr sensor"
    and "active s = Some a"
  shows "lights_off c e s = refresh_timer s
         \<and> fst (lights_off c e s) = None
         \<and> issued (snd (lights_off c e s)) = issued s
         \<and> (delay a \<noteq> 0 \<longrightarrow>
               timers (snd (lights_off c e s))
                 = timers (cancel_timer (handle s) s) @ [(next_handle s, delay a)]
               \<and> handle (snd (lights_off c e s)) = Some (next_handle s))
         \<and> (delay a = 0 \<longrightarrow>
               timers (snd (lights_off c e s)) = timers (cancel_timer (handle s) s)
               \<and> next_handle (snd (lights_off c e s)) = next_handle s)"
proof -
  let ?bs = "filter (reading_ge e thr) (sensors_humidity c)"
  have readable: "\<forall>sensor \<in> set (sensors_humidity c). readable e sensor"
    using assms(4) by simp
  have bs: "?bs \<noteq> []"
    using assms(5) by (auto simp: filter_empty_conv)
  then have "last ?bs \<in> set ?bs"
    by (rule last_in_set)
  then have named: "last ?bs \<noteq> []"
    using assms(4) by auto
  have "off_blocker c e = Inr (Some (last ?bs))"
    using off_blocker_readable [OF assms(2,3) readable] bs by (simp add: Let_def)
  then have off: "lights_off c e s = refresh_timer s"
    using assms(1) named by (simp add: lights_off_def)
  show ?thesis
    unfolding off using assms(6)
    by (simp add: refresh_timer_def Let_def run_in_def)
qed

theorem humidity_block_refreshes_timer_witness:
  "disabled steamy (disable_switch_entity bathroom) = Inr False
   \<and> thresholds_humidity bathroom = Some 60 \<and> (60::rat) \<noteq> 0
   \<and> readable steamy ''sensor.humidity_a'' \<and> readable steamy ''sensor.humidity_b''
   \<and> reading_ge steamy 60 ''sensor.humidity_a''
   \<and> active (timed day) = Some day \<and> delay day = 150
   \<and> lights_off bathroom steamy (timed day) = refresh_timer (timed day)
   \<and> issued (snd (lights_off bathroom steamy (timed day))) = []
   \<and> timers (snd (lights_off bathroom steamy (timed day))) = [(1, 150)]
   \<and> handle (snd (lights_off bathroom steamy (timed day))) = Some 1"
proof -
  have free: "disabled steamy (disable_switch_entity bathroom) = Inr False"
    by code_simp
  have thr: "thresholds_humidity bathroom = Some 60"
    by (simp add: bathroom_def)
  have a: "readable steamy ''sensor.humidity_a''" and b: "readable steamy ''sensor.humidity_b''"
    and ge: "reading_ge steamy 60 ''sensor.humidity_a''"
    by code_simp+
  have all: "\<forall>sensor \<in> set (sensors_humidity bathroom). readable steamy sensor \<and> sensor \<noteq> []"
    using a b by (simp add: bathroom_def)
  have some: "\<exists>sensor \<in> set (sensors_humidity bathroom). reading_ge steamy 60 sensor"
    using ge by (simp add: bathroom_def)
  have act: "active (timed day) = Some day"
    by (simp add: timed_def)
  have d: "delay day = 150"
    by (simp add: day_def)
  have s: "timers (cancel_timer (handle (timed day)) (timed day)) = []"
    "next_handle (timed day) = 1" "issued (timed day) = []"
    by (simp_all add: timed_def cancel_timer_def)
  have nz: "(60::rat) \<noteq> 0"
    by simp
  note inst = humidity_block_refreshes_timer [OF free thr nz all some act]
  from inst have same: "lights_off bathroom steamy (timed day) = refresh_timer (timed day)"
    by (rule conjunct1)
  from inst [THEN conjunct2] d s
  have "issued (snd (lights_off bathroom steamy (timed day))) = []"
    and "timers (snd (lights_off bathroom steamy (timed day))) = [(1, 150)]"
    and "handle (snd (lights_off bathroom steamy (timed day))) = Some 1"
    by simp_all
  with same free thr nz a b ge act d show ?thesis
    by blast
qed

text \<open>
  C6, where the code departs from the specification. The timer fires while the light is
  on, the first humidity sensor reads \<^verbatim>\<open>unavailable\<close> and the second reads 40, below the
  threshold of 60. The specification has the unreadable sensor count as no match and the
  off-path go on to turn the light off; in the code \<^verbatim>\<open>float\<close> raises \<^verbatim>\<open>ValueError\<close> out of
  \<^verbatim>\<open>lights_off\<close>: no fade is started, and nothing is pending that would try again.
\<close>

theorem unreadable_humidity_aborts_off_path:
  "\<not> readable offline ''sensor.humidity_a''
   \<and> \<not> reading_ge offline 60 ''sensor.humidity_b''
   \<and> any_light_on bathroom offline
   \<and> fst (timer_fired bathroom offline 0 (timed day)) = Some ValueError
   \<and> issued (snd (timer_fired bathroom offline 0 (timed day))) = []
   \<and> timers (snd (timer_fired bathroom offline 0 (timed day))) = []"
  by code_simp




text \<open>
  C8, as the specification states it, fails: when both humidity sensors read above the
  threshold, the blocker of the off-path is the second one, not the first.
\<close>

theorem off_blocker_first_counterexample:
  "off_blocker bathroom steamy = Inr (Some ''sensor.humidity_b'')
   \<and> find (reading_ge steamy 60) (sensors_humidity bathroom) = Some ''sensor.humidity_a''"
  by code_simp

text \<open>
  C8, amended. With a humidity threshold that is configured and not zero, and every
  humidity sensor readable, the blocker of the off-path is the last sensor, in the order
  of the configured sensors, whose reading is at or above the threshold (\<^verbatim>\<open>blocker.pop()\<close>
  takes the end of the list), and \<^verbatim>\<open>None\<close> when no reading reaches the threshold.
\<close>

theorem off_blocker_last_match:
  assumes "thresholds_humidity c = Some thr" and "thr \<noteq> 0"
    and "\<forall>sensor \<in> set (sensors_humidity c). readable e sensor"
  shows "off_blocker c e =
           Inr (case rev (filter (reading_ge e thr) (sensors_humidity c)) of
                  [] \<Rightarrow> None
                | sensor # earlier \<Rightarrow> Some sensor)"
proof -
  let ?bs = "filter (reading_ge e thr) (sensors_humidity c)"
  have "off_blocker c e = Inr (if ?bs = [] then None else Some (last ?bs))"
    using off_blocker_readable [OF assms] by (simp add: Let_def)
  moreover have "(if ?bs = [] then None else Some (last ?bs)) =
      (case rev ?bs of [] \<Rightarrow> None | sensor # earlier \<Rightarrow> Some sensor)"
    by (cases ?bs rule: rev_cases) simp_all
  ultimately show ?thesis by simp
qed

theorem off_blocker_last_match_witness:
  "thresholds_humidity bathroom = Some 60 \<and> (60::rat) \<noteq> 0
   \<and> readable steamy ''sensor.humidity_a'' \<and> readable steamy ''sensor.humidity_b''
   \<and> off_blocker bathroom steamy =
       Inr (case rev (filter (reading_ge steamy 60) (sensors_humidity bathroom)) of
              [] \<Rightarrow> None
            | sensor # earlier \<Rightarrow> Some sensor)"
proof -
  have thr: "thresholds_humidity bathroom = Some 60"
    by (simp add: bathroom_def)
  have a: "readable steamy ''sensor.humidity_a''" and b: "readable steamy ''sensor.humidity_b''"
    by code_simp+
  then have all: "\<forall>sensor \<in> set (sensors_humidity bathroom). readable steamy sensor"
    by (simp add: bathroom_def)
  from off_blocker_last_match [OF thr _ all] thr a b show ?thesis
    by simp
qed



text \<open>
  C10. A threshold of 0 switches its blocker off. With an illuminance threshold of 0 the
  turn-on reads no illuminance sensor and finds no blocker, and \<^verbatim>\<open>lights_on\<close> does
  exactly what it does with no illuminance threshold; with a humidity threshold of 0 the
  off-path reads no humidity sensor and finds no blocker, and \<^verbatim>\<open>lights_off\<close> does exactly
  what it does with no humidity threshold. This holds in every world, whatever the
  sensors read.
\<close>

theorem zero_threshold_disables_blocker:
  "on_blocker (c\<lparr>thresholds_illuminance := Some 0\<rparr>) e = Inr (Some [])
   \<and> lights_on (c\<lparr>thresholds_illuminance := Some 0\<rparr>) e s
       = lights_on (c\<lparr>thresholds_illuminance := None\<rparr>) e s
   \<and> off_blocker (c\<lparr>thresholds_humidity := Some 0\<rparr>) e = Inr None
   \<and> lights_off (c\<lparr>thresholds_humidity := Some 0\<rparr>) e s
       = lights_off (c\<lparr>thresholds_humidity := None\<rparr>) e s"
proof -
  have "lights_on (c\<lparr>thresholds_illuminance := Some 0\<rparr>) e s
      = lights_on (c\<lparr>thresholds_illuminance := None\<rparr>) e s"
    by (auto simp: lights_on_def on_blocker_zero lights_off_illuminance_threshold
        brightness_command_def split: option.splits setting.splits)
  moreover have "lights_off (c\<lparr>thresholds_humidity := Some 0\<rparr>) e s
      = lights_off (c\<lparr>thresholds_humidity := None\<rparr>) e s"
    by (auto simp: lights_off_def off_blocker_zero any_light_on_thresholds Let_def
        split: sum.splits bool.splits)
  ultimately show ?thesis
    by (simp add: on_blocker_zero off_blocker_zero)
qed

theorem zero_threshold_disables_blocker_witness:
  "on_blocker (bathroom\<lparr>thresholds_illuminance := Some 0\<rparr>) bright = Inr (Some [])
   \<and> issued (snd (lights_on (bathroom\<lparr>thresholds_illuminance := Some 0\<rparr>) bright (idle day)))
       = issued (snd (lights_on (bathroom\<lparr>thresholds_illuminance := None\<rparr>) bright (idle day)))
   \<and> off_blocker (bathroom\<lparr>thresholds_humidity := Some 0\<rparr>) steamy = Inr None
   \<and> issued (snd (lights_off (bathroom\<lparr>thresholds_humidity := Some 0\<rparr>) steamy (idle day)))
       = issued (snd (lights_off (bathroom\<lparr>thresholds_humidity := None\<rparr>) steamy (idle day)))"
  using zero_threshold_disables_blocker [of bathroom bright "idle day"]
    zero_threshold_disables_blocker [of bathroom steamy "idle day"]
  by simp

end
